theory Spec2Isabelle
  imports Complex_Main
begin

section \<open>Strings\<close>

text \<open>
  The matcher of \<^verbatim>\<open>src/utils/productMatcher.ts\<close> works on JavaScript strings. A string is
  modelled as a \<^typ>\<open>string\<close> whose characters are read as UTF-16 code units below 256
  (Latin-1); \<^verbatim>\<open>s.length\<close> is \<^const>\<open>length\<close>. A JavaScript \<^verbatim>\<open>number\<close> that carries a
  score or a probability is modelled as a \<^typ>\<open>real\<close> (exact arithmetic, no rounding, no
  NaN); one that carries an index or a count is a \<^typ>\<open>nat\<close> or an \<^typ>\<open>int\<close>. In the code
  the score is a sum of doubles, and adding a small positive number to a large sum can
  leave the sum unchanged. The theorems below therefore order two accumulated scores only
  non-strictly, and state a strict order only for the result of one step from the score
  0, where the addition is exact.
\<close>

text \<open>
  The characters that \<^verbatim>\<open>String.prototype.trim\<close> strips and that \<^verbatim>\<open>\s\<close> matches in a
  regular expression: TAB, LF, VT, FF, CR, SPACE and NBSP (the ones below 256).
\<close>

definition isWhiteSpace :: "char \<Rightarrow> bool" where
  "isWhiteSpace c =
     (c \<in> set [CHR 0x09, CHR 0x0A, CHR 0x0B, CHR 0x0C, CHR 0x0D, CHR 0x20, CHR 0xA0])"

text \<open>The character class \<^verbatim>\<open>[\s,]\<close> of the regular expression in \<^verbatim>\<open>tokenizeClassName\<close>.\<close>

definition isSeparator :: "char \<Rightarrow> bool" where
  "isSeparator c = (isWhiteSpace c \<or> c = CHR '','')"

text \<open>
  \<^verbatim>\<open>String.prototype.toLowerCase\<close> on Latin-1: the upper-case letters are A to Z
  (65 to 90) and the accented capitals 192 to 222 without the multiplication sign 215;
  the lower-case letter is 32 above.
\<close>

definition isUpperCase :: "char \<Rightarrow> bool" where
  "isUpperCase c =
     (let n = (of_char c :: nat)
      in (65 \<le> n \<and> n \<le> 90) \<or> (192 \<le> n \<and> n \<le> 222 \<and> n \<noteq> 215))"

definition toLowerChar :: "char \<Rightarrow> char" where
  "toLowerChar c = (if isUpperCase c then char_of (of_char c + (32 :: nat)) else c)"

definition toLowerCase :: "string \<Rightarrow> string" where
  "toLowerCase s = map toLowerChar s"

definition trim :: "string \<Rightarrow> string" where
  "trim s = rev (dropWhile isWhiteSpace (rev (dropWhile isWhiteSpace s)))"

text \<open>
  \<^verbatim>\<open>s.split(/[\s,]+/)\<close>: the pieces of \<open>s\<close> between the maximal runs of separators. A
  separator at the start or at the end of \<open>s\<close> leaves an empty piece there, and the
  empty string gives one empty piece.
\<close>

function splitOnSeparators :: "string \<Rightarrow> string list" where
  "splitOnSeparators s =
     takeWhile (\<lambda>c. \<not> isSeparator c) s #
       (case dropWhile (\<lambda>c. \<not> isSeparator c) s of
          [] \<Rightarrow> []
        | c # rest \<Rightarrow> splitOnSeparators (dropWhile isSeparator rest))"
  by pat_completeness auto
termination
proof (relation "measure length")
  fix s :: string and c rest
  assume "dropWhile (\<lambda>c. \<not> isSeparator c) s = c # rest"
  then have "length rest < length s"
    using length_dropWhile_le [of "\<lambda>c. \<not> isSeparator c" s] by simp
  moreover have "length (dropWhile isSeparator rest) \<le> length rest"
    by (rule length_dropWhile_le)
  ultimately show "(dropWhile isSeparator rest, s) \<in> measure length"
    by simp
qed simp

declare splitOnSeparators.simps [simp del]

text \<open>\<^verbatim>\<open>s.startsWith(t)\<close> and \<^verbatim>\<open>s.includes(t)\<close>: \<open>t\<close> occurs in \<open>s\<close> as a contiguous run.\<close>

fun startsWith :: "string \<Rightarrow> string \<Rightarrow> bool" where
  "startsWith s [] = True"
| "startsWith [] (d # t) = False"
| "startsWith (c # s) (d # t) = (c = d \<and> startsWith s t)"

fun stringIncludes :: "string \<Rightarrow> string \<Rightarrow> bool" where
  "stringIncludes [] t = (t = [])"
| "stringIncludes (c # s) t = (startsWith (c # s) t \<or> stringIncludes s t)"

section \<open>The tokenizer\<close>

definition tokenizeClassName :: "string \<Rightarrow> string list" where
  "tokenizeClassName className =
     (let original = trim className;
          parts = filter (\<lambda>s. s \<noteq> []) (map trim (splitOnSeparators (toLowerCase className)))
      in toLowerCase original # parts)"

section \<open>Data model\<close>

text \<open>The interface \<^verbatim>\<open>Prediction\<close> of \<^verbatim>\<open>src/utils/imageClassifier.ts\<close>.\<close>

record prediction =
  className :: string
  probability :: real

text \<open>
  Modelled from the spec: the interface \<^verbatim>\<open>Product\<close> is declared in \<^verbatim>\<open>@/data/products\<close>,
  which is not among the sources. The spec's CatalogItem has the fields
  \<^verbatim>\<open>id, name, category, tags, description, price, imageRef\<close>; the matcher reads
  \<open>name\<close>, \<open>category\<close>, \<open>tags\<close> and \<open>description\<close>.
\<close>

record product =
  productId :: nat
  name :: string
  category :: string
  tags :: "string list"
  description :: string
  price :: real
  imageRef :: string

text \<open>The entries of the local array \<^verbatim>\<open>predictionWords\<close> of \<^verbatim>\<open>calculateSimilarity\<close>.\<close>

record predictionWord =
  word :: string
  wordProbability :: real
  rank :: nat

text \<open>The interface \<^verbatim>\<open>MatchScore\<close>.\<close>

record matchScore =
  product :: product
  score :: real
  matchedTags :: "string list"

section \<open>The similarity score\<close>

text \<open>
  The first loop of \<^verbatim>\<open>calculateSimilarity\<close>: every prediction, with its index, pushes one
  entry for each of its words that is longer than two characters.
\<close>

definition pushWord :: "prediction \<Rightarrow> nat \<Rightarrow> string \<Rightarrow> predictionWord list \<Rightarrow> predictionWord list" where
  "pushWord pred index w acc =
     (if length w > 2
      then acc @ [\<lparr>word = w, wordProbability = probability pred, rank = index\<rparr>]
      else acc)"

definition predictionWords :: "prediction list \<Rightarrow> predictionWord list" where
  "predictionWords predictions =
     fold (\<lambda>(index, pred) acc. fold (pushWord pred index) (tokenizeClassName (className pred)) acc)
       (enumerate 0 predictions) []"

definition rankMultiplier :: "nat \<Rightarrow> real" where
  "rankMultiplier r = (if r = 0 then 5 else if r = 1 then 4 else if r = 2 then 3 else 2)"

text \<open>
  The loops of \<^verbatim>\<open>calculateSimilarity\<close> update the two locals \<^verbatim>\<open>score\<close> and
  \<^verbatim>\<open>matchedTags\<close>; a loop body is a function on that pair.
\<close>

type_synonym matchState = "real \<times> string list"

definition tagStep :: "string \<Rightarrow> string \<Rightarrow> predictionWord \<Rightarrow> matchState \<Rightarrow> matchState" where
  "tagStep tag tagWord pw st =
     (case st of (sc, matched) \<Rightarrow>
        if tagWord = word pw
        then (sc + 100 * wordProbability pw * rankMultiplier (rank pw), matched @ [tag])
        else if (stringIncludes tagWord (word pw) \<or> stringIncludes (word pw) tagWord)
                \<and> length tagWord > 3 \<and> length (word pw) > 3
        then (sc + 10 * wordProbability pw * rankMultiplier (rank pw),
              if tag \<in> set matched then matched else matched @ [tag])
        else (sc, matched))"

definition nameStep :: "string \<Rightarrow> predictionWord \<Rightarrow> matchState \<Rightarrow> matchState" where
  "nameStep nameWord pw st =
     (case st of (sc, matched) \<Rightarrow>
        if nameWord = word pw
        then (sc + 150 * wordProbability pw * rankMultiplier (rank pw),
              matched @ [''name:'' @ nameWord])
        else if (stringIncludes nameWord (word pw) \<or> stringIncludes (word pw) nameWord)
                \<and> length nameWord > 3 \<and> length (word pw) > 3
        then (sc + 15 * wordProbability pw * rankMultiplier (rank pw),
              if (''name:'' @ nameWord) \<in> set matched then matched
              else matched @ [''name:'' @ nameWord])
        else (sc, matched))"

definition categoryStep :: "string \<Rightarrow> predictionWord \<Rightarrow> real \<Rightarrow> real" where
  "categoryStep cat pw sc =
     (if stringIncludes (toLowerCase cat) (word pw) \<or> stringIncludes (word pw) (toLowerCase cat)
      then sc + 5 * wordProbability pw * rankMultiplier (rank pw)
      else sc)"

text \<open>\<^verbatim>\<open>[...new Set(xs)]\<close>: the elements of \<open>xs\<close> in the order of their first occurrence.\<close>

definition uniqueInOrder :: "string list \<Rightarrow> string list" where
  "uniqueInOrder xs = fold (\<lambda>x acc. if x \<in> set acc then acc else acc @ [x]) xs []"

text \<open>
  The body of \<^verbatim>\<open>product.tags.forEach\<close>: the words of one tag against every prediction
  word. The body of \<^verbatim>\<open>productNameWords.forEach\<close>: one word of the name against every
  prediction word.
\<close>

definition scoreTag :: "predictionWord list \<Rightarrow> string \<Rightarrow> matchState \<Rightarrow> matchState" where
  "scoreTag pws tag st =
     fold (\<lambda>tagWord st'. fold (tagStep tag tagWord) pws st') (tokenizeClassName tag) st"

definition scoreNameWord :: "predictionWord list \<Rightarrow> string \<Rightarrow> matchState \<Rightarrow> matchState" where
  "scoreNameWord pws nameWord st = fold (nameStep nameWord) pws st"

definition calculateSimilarity :: "prediction list \<Rightarrow> product \<Rightarrow> matchScore" where
  "calculateSimilarity predictions p =
     (let pws = predictionWords predictions;
          afterTags = fold (scoreTag pws) (tags p) (0, []);
          afterName = fold (scoreNameWord pws) (tokenizeClassName (name p)) afterTags;
          final = fold (categoryStep (category p)) pws (fst afterName)
      in \<lparr>product = p, score = final, matchedTags = uniqueInOrder (snd afterName)\<rparr>)"

section \<open>Ranking\<close>

text \<open>
  \<^verbatim>\<open>xs.slice(0, end)\<close> for an integer \<open>end\<close>: a negative \<open>end\<close> counts from the end of
  the array. The parameter \<^verbatim>\<open>limit: number = 50\<close> of \<^verbatim>\<open>findMatchingProducts\<close> reaches
  \<^verbatim>\<open>slice\<close> unchecked; it is modelled as an \<^typ>\<open>int\<close>.
\<close>

definition sliceTo :: "int \<Rightarrow> 'a list \<Rightarrow> 'a list" where
  "sliceTo end xs =
     (let len = int (length xs);
          final = (if end < 0 then max (len + end) 0 else min end len)
      in take (nat final) xs)"

text \<open>\<^verbatim>\<open>xs.sort((a, b) => b.score - a.score)\<close>: a stable sort, highest score first.\<close>

definition sortByScore :: "matchScore list \<Rightarrow> matchScore list" where
  "sortByScore xs = sort_key (\<lambda>item. - score item) xs"

definition scoredProducts :: "prediction list \<Rightarrow> product list \<Rightarrow> matchScore list" where
  "scoredProducts predictions allProducts =
     filter (\<lambda>item. score item \<ge> 100) (map (calculateSimilarity predictions) allProducts)"

text \<open>
  The array \<^verbatim>\<open>sortedProducts\<close>. The logging of the top scores has sorted
  \<^verbatim>\<open>scoredProducts\<close> in place before.
\<close>

definition sortedProducts :: "prediction list \<Rightarrow> product list \<Rightarrow> int \<Rightarrow> product list" where
  "sortedProducts predictions allProducts limit =
     map product
       (sliceTo limit
          (sortByScore
             (filter (\<lambda>item. score item > 0)
                (sortByScore (scoredProducts predictions allProducts)))))"

definition findMatchingProducts :: "prediction list \<Rightarrow> product list \<Rightarrow> int \<Rightarrow> product list" where
  "findMatchingProducts predictions allProducts limit =
     (if length (sortedProducts predictions allProducts limit) = 0
      then sliceTo limit allProducts
      else sortedProducts predictions allProducts limit)"

section \<open>Query filters\<close>

text \<open>The test \<^verbatim>\<open>!category\<close> holds for the empty string.\<close>

definition filterByCategory :: "product list \<Rightarrow> string \<Rightarrow> product list" where
  "filterByCategory products cat =
     (if cat = [] \<or> cat = ''all'' then products
      else filter (\<lambda>p. category p = cat) products)"

section \<open>The scoring model of the specification\<close>

text \<open>
  The definitions of this section follow the words of the specification (its sections 4.2
  and 4.3), not the code; the theorems below compare them with the code. The rank decay:
  5 for rank 0, 4 for rank 1, 3 for rank 2, else 2.
\<close>

fun rankWeight :: "nat \<Rightarrow> real" where
  "rankWeight 0 = 5"
| "rankWeight (Suc 0) = 4"
| "rankWeight (Suc (Suc 0)) = 3"
| "rankWeight (Suc (Suc (Suc r))) = 2"

text \<open>
  The contribution of one pair of a field token and a prediction token: an exact match
  gives \<open>baseExact * confidence * rankWeight rank\<close>, a substring match one way or the other
  between tokens that are both longer than 3 gives \<open>basePartial * confidence * rankWeight rank\<close>,
  anything else gives 0.
\<close>

definition fieldContribution :: "real \<Rightarrow> real \<Rightarrow> string \<Rightarrow> predictionWord \<Rightarrow> real" where
  "fieldContribution baseExact basePartial fieldToken pw =
     (if fieldToken = word pw
      then baseExact * wordProbability pw * rankWeight (rank pw)
      else if (stringIncludes fieldToken (word pw) \<or> stringIncludes (word pw) fieldToken)
              \<and> length fieldToken > 3 \<and> length (word pw) > 3
      then basePartial * wordProbability pw * rankWeight (rank pw)
      else 0)"

text \<open>The category: a flat weight 5, by substring containment one way or the other.\<close>

definition categoryContribution :: "string \<Rightarrow> predictionWord \<Rightarrow> real" where
  "categoryContribution cat pw =
     (if stringIncludes (toLowerCase cat) (word pw) \<or> stringIncludes (word pw) (toLowerCase cat)
      then 5 * wordProbability pw * rankWeight (rank pw)
      else 0)"

text \<open>
  The total score of an item against a prediction index: the sum of the contributions of
  every pair, with the weights 100 and 10 for the tokens of the tags, 150 and 15 for the
  tokens of the name.
\<close>

definition tagsScore :: "predictionWord list \<Rightarrow> product \<Rightarrow> real" where
  "tagsScore pws p =
     (\<Sum>tag\<leftarrow>tags p. \<Sum>tagWord\<leftarrow>tokenizeClassName tag. \<Sum>pw\<leftarrow>pws.
        fieldContribution 100 10 tagWord pw)"

definition nameScore :: "predictionWord list \<Rightarrow> product \<Rightarrow> real" where
  "nameScore pws p =
     (\<Sum>nameWord\<leftarrow>tokenizeClassName (name p). \<Sum>pw\<leftarrow>pws.
        fieldContribution 150 15 nameWord pw)"

definition categoryScore :: "predictionWord list \<Rightarrow> product \<Rightarrow> real" where
  "categoryScore pws p = (\<Sum>pw\<leftarrow>pws. categoryContribution (category p) pw)"

definition totalScore :: "predictionWord list \<Rightarrow> product \<Rightarrow> real" where
  "totalScore pws p = tagsScore pws p + nameScore pws p + categoryScore pws p"

text \<open>
  The prediction index: for the prediction at position \<open>r\<close>, one entry for each token of
  its label that is longer than 2, with the confidence of the prediction and \<open>r\<close>.
\<close>

definition indexEntries :: "nat \<Rightarrow> prediction \<Rightarrow> predictionWord list" where
  "indexEntries r pred =
     map (\<lambda>token. \<lparr>word = token, wordProbability = probability pred, rank = r\<rparr>)
       (filter (\<lambda>token. length token > 2) (tokenizeClassName (className pred)))"

definition buildIndex :: "prediction list \<Rightarrow> predictionWord list" where
  "buildIndex predictions =
     concat (map (\<lambda>(r, pred). indexEntries r pred) (enumerate 0 predictions))"

section \<open>Example data\<close>

text \<open>Predictions and catalog items on which the theorems below are instantiated.\<close>

definition mugPrediction :: prediction where
  "mugPrediction = \<lparr>className = ''coffee mug'', probability = 0.9\<rparr>"

definition travelMug :: product where
  "travelMug = \<lparr>productId = 1, name = ''Travel Mug'', category = ''kitchen'',
     tags = [''mug'', ''coffee''], description = ''A steel mug'', price = 12,
     imageRef = ''mug.jpg''\<rparr>"

definition teaKettle :: product where
  "teaKettle = \<lparr>productId = 2, name = ''Kettle'', category = ''kitchen'',
     tags = [''tea'', ''kettle''], description = ''A kettle'', price = 30,
     imageRef = ''kettle.jpg''\<rparr>"

definition coffeepot :: product where
  "coffeepot = \<lparr>productId = 3, name = ''Pot'', category = ''kitchen'',
     tags = [''coffeepot''], description = ''A pot'', price = 25,
     imageRef = ''pot.jpg''\<rparr>"

definition smartTv :: product where
  "smartTv = \<lparr>productId = 4, name = ''Smart TV'', category = ''electronics'',
     tags = [''tv''], description = ''A television'', price = 400,
     imageRef = ''tv.jpg''\<rparr>"

definition tvPrediction :: prediction where
  "tvPrediction = \<lparr>className = ''tv'', probability = 0.9\<rparr>"

definition lowMugPrediction :: prediction where
  "lowMugPrediction = \<lparr>className = ''mug'', probability = 0.1\<rparr>"

definition zeroMugPrediction :: prediction where
  "zeroMugPrediction = \<lparr>className = ''mug'', probability = 0\<rparr>"

definition zebraPrediction :: prediction where
  "zebraPrediction = \<lparr>className = ''zebra'', probability = 0.1\<rparr>"

section \<open>Substrings\<close>

text \<open>\<open>stringIncludes s t\<close> holds exactly when \<open>t\<close> is a contiguous part of \<open>s\<close>.\<close>

lemma startsWith_iff: "startsWith s t \<longleftrightarrow> (\<exists>suf. s = t @ suf)"
  by (induction s t rule: startsWith.induct) auto

lemma stringIncludes_iff: "stringIncludes s t \<longleftrightarrow> (\<exists>pre suf. s = pre @ t @ suf)"
proof (induction s)
  case Nil
  then show ?case by auto
next
  case (Cons c s)
  have "(\<exists>pre suf. c # s = pre @ t @ suf)
      \<longleftrightarrow> (\<exists>suf. c # s = t @ suf) \<or> (\<exists>pre suf. s = pre @ t @ suf)"
    by (auto simp add: Cons_eq_append_conv)
  with Cons show ?case
    by (simp add: startsWith_iff del: startsWith.simps)
qed

section \<open>The prediction index and the score as a sum\<close>

lemma rankMultiplier_rankWeight: "rankMultiplier r = rankWeight r"
  by (induction r rule: rankWeight.induct) (simp_all add: rankMultiplier_def)

lemma fold_pushWord:
  "fold (pushWord pred i) ws acc = acc @
     map (\<lambda>token. \<lparr>word = token, wordProbability = probability pred, rank = i\<rparr>)
       (filter (\<lambda>token. length token > 2) ws)"
  by (induction ws arbitrary: acc) (simp_all add: pushWord_def)

lemma fold_predictions:
  "fold (\<lambda>(index, pred) acc. fold (pushWord pred index) (tokenizeClassName (className pred)) acc)
     (enumerate n predictions) acc
   = acc @ concat (map (\<lambda>(r, pred). indexEntries r pred) (enumerate n predictions))"
  by (induction predictions arbitrary: n acc) (simp_all add: fold_pushWord indexEntries_def)

lemma predictionWords_buildIndex: "predictionWords predictions = buildIndex predictions"
  by (simp add: predictionWords_def buildIndex_def fold_predictions)

lemma fst_tagStep: "fst (tagStep tag tagWord pw st) = fst st + fieldContribution 100 10 tagWord pw"
  by (cases st) (auto simp add: tagStep_def fieldContribution_def rankMultiplier_rankWeight)

lemma fst_nameStep: "fst (nameStep nameWord pw st) = fst st + fieldContribution 150 15 nameWord pw"
  by (cases st) (auto simp add: nameStep_def fieldContribution_def rankMultiplier_rankWeight)

lemma categoryStep_eq: "categoryStep cat pw sc = sc + categoryContribution cat pw"
  by (simp add: categoryStep_def categoryContribution_def rankMultiplier_rankWeight)

lemma fst_fold_tagStep:
  "fst (fold (tagStep tag tagWord) pws st) = fst st + (\<Sum>pw\<leftarrow>pws. fieldContribution 100 10 tagWord pw)"
  by (induction pws arbitrary: st) (simp_all add: fst_tagStep)

lemma fst_fold_nameStep:
  "fst (fold (nameStep nameWord) pws st) = fst st + (\<Sum>pw\<leftarrow>pws. fieldContribution 150 15 nameWord pw)"
  by (induction pws arbitrary: st) (simp_all add: fst_nameStep)

lemma fold_categoryStep:
  "fold (categoryStep cat) pws sc = sc + (\<Sum>pw\<leftarrow>pws. categoryContribution cat pw)"
  by (induction pws arbitrary: sc) (simp_all add: categoryStep_eq)

lemma fst_fold_tagWords:
  "fst (fold (\<lambda>tagWord st'. fold (tagStep tag tagWord) pws st') tws st)
   = fst st + (\<Sum>tagWord\<leftarrow>tws. \<Sum>pw\<leftarrow>pws. fieldContribution 100 10 tagWord pw)"
  by (induction tws arbitrary: st) (simp_all add: fst_fold_tagStep)

lemma fst_scoreTag:
  "fst (scoreTag pws tag st)
   = fst st + (\<Sum>tagWord\<leftarrow>tokenizeClassName tag. \<Sum>pw\<leftarrow>pws. fieldContribution 100 10 tagWord pw)"
  by (simp add: scoreTag_def fst_fold_tagWords)

lemma fst_fold_scoreTag:
  "fst (fold (scoreTag pws) tgs st)
   = fst st + (\<Sum>tag\<leftarrow>tgs. \<Sum>tagWord\<leftarrow>tokenizeClassName tag. \<Sum>pw\<leftarrow>pws.
                 fieldContribution 100 10 tagWord pw)"
  by (induction tgs arbitrary: st) (simp_all add: fst_scoreTag)

lemma fst_fold_scoreNameWord:
  "fst (fold (scoreNameWord pws) nws st)
   = fst st + (\<Sum>nameWord\<leftarrow>nws. \<Sum>pw\<leftarrow>pws. fieldContribution 150 15 nameWord pw)"
  by (induction nws arbitrary: st) (simp_all add: scoreNameWord_def fst_fold_nameStep)

lemma score_calculateSimilarity:
  "score (calculateSimilarity predictions p) = totalScore (predictionWords predictions) p"
  by (simp add: calculateSimilarity_def Let_def fold_categoryStep fst_fold_scoreNameWord
      fst_fold_scoreTag totalScore_def tagsScore_def nameScore_def categoryScore_def)

lemma product_calculateSimilarity: "product (calculateSimilarity predictions p) = p"
  by (simp add: calculateSimilarity_def Let_def)

text \<open>
  Claim C7. The prediction index built inside \<open>calculateSimilarity\<close> holds, for the
  prediction at each 0-based position of the input, exactly one entry for each token of
  its tokenized label that is longer than 2 characters, in order, with the probability of
  that prediction and that position as rank; tokens of length 2 or less leave no entry.
\<close>

theorem prediction_index_entries:
  "predictionWords predictions =
     concat (map (\<lambda>(r, pred).
                    map (\<lambda>token. \<lparr>word = token, wordProbability = probability pred, rank = r\<rparr>)
                      (filter (\<lambda>token. length token > 2) (tokenizeClassName (className pred))))
               (enumerate 0 predictions))"
  using predictionWords_buildIndex [of predictions]
  by (simp add: buildIndex_def indexEntries_def)

text \<open>
  Claim C3. Each pair of a field token and a prediction token adds to the score its base
  weight times the confidence times the rank weight: the loop bodies add
  \<open>fieldContribution 100 10\<close> for a token of a tag, \<open>fieldContribution 150 15\<close> for a token of
  the name and \<open>categoryContribution\<close> (weight 5, containment only) for the category, the
  multiplier of the code is the rank weight 5, 4, 3, 2, and the score that
  \<open>calculateSimilarity\<close> returns is the sum of these contributions over all pairs.
\<close>

theorem pair_contribution:
  "fst (tagStep tag tagWord pw (sc, matched)) = sc + fieldContribution 100 10 tagWord pw
   \<and> fst (nameStep nameWord pw (sc, matched)) = sc + fieldContribution 150 15 nameWord pw
   \<and> categoryStep cat pw sc = sc + categoryContribution cat pw
   \<and> rankMultiplier r = rankWeight r
   \<and> score (calculateSimilarity predictions p) = totalScore (predictionWords predictions) p"
  by (simp add: fst_tagStep fst_nameStep categoryStep_eq rankMultiplier_rankWeight
      score_calculateSimilarity)

text \<open>
  Claim C6. For a token of a tag and for a token of the name, the loop body adds the
  partial contribution (base 10 for a tag, 15 for the name, for every confidence and
  rank) if and only if one token contains the other, the two tokens differ and both are
  longer than 3 characters.
\<close>

theorem partial_match_gate:
  "((\<forall>prob r sc matched.
        fst (tagStep tag fieldWord \<lparr>word = predWord, wordProbability = prob, rank = r\<rparr> (sc, matched))
        = sc + 10 * prob * rankMultiplier r)
    \<longleftrightarrow> (stringIncludes fieldWord predWord \<or> stringIncludes predWord fieldWord)
         \<and> fieldWord \<noteq> predWord \<and> length fieldWord > 3 \<and> length predWord > 3)
   \<and> ((\<forall>prob r sc matched.
        fst (nameStep fieldWord \<lparr>word = predWord, wordProbability = prob, rank = r\<rparr> (sc, matched))
        = sc + 15 * prob * rankMultiplier r)
    \<longleftrightarrow> (stringIncludes fieldWord predWord \<or> stringIncludes predWord fieldWord)
         \<and> fieldWord \<noteq> predWord \<and> length fieldWord > 3 \<and> length predWord > 3)"
proof -
  let ?gate = "(stringIncludes fieldWord predWord \<or> stringIncludes predWord fieldWord)
     \<and> fieldWord \<noteq> predWord \<and> length fieldWord > 3 \<and> length predWord > 3"
  let ?pw = "\<lparr>word = predWord, wordProbability = 1, rank = 0\<rparr>"
  have tag_if: "fst (tagStep tag fieldWord \<lparr>word = predWord, wordProbability = prob, rank = r\<rparr> (sc, matched))
      = sc + 10 * prob * rankMultiplier r" if ?gate for prob r sc matched
    using that by (simp add: tagStep_def)
  have name_if: "fst (nameStep fieldWord \<lparr>word = predWord, wordProbability = prob, rank = r\<rparr> (sc, matched))
      = sc + 15 * prob * rankMultiplier r" if ?gate for prob r sc matched
    using that by (simp add: nameStep_def)
  have tag_only_if: ?gate if "fst (tagStep tag fieldWord ?pw (0, [])) = 0 + 10 * 1 * rankMultiplier 0"
    using that by (simp add: tagStep_def rankMultiplier_def split: if_splits)
  have name_only_if: ?gate if "fst (nameStep fieldWord ?pw (0, [])) = 0 + 15 * 1 * rankMultiplier 0"
    using that by (simp add: nameStep_def rankMultiplier_def split: if_splits)
  show ?thesis
    using tag_if name_if tag_only_if name_only_if by blast
qed

section \<open>Ranking: fallback, threshold and limit\<close>

lemma predictionWords_Nil: "predictionWords [] = []"
  by (simp add: predictionWords_def)

lemma totalScore_Nil: "totalScore [] p = 0"
  by (simp add: totalScore_def tagsScore_def nameScore_def categoryScore_def)

lemma scoredProducts_Nil: "scoredProducts [] allProducts = []"
  by (simp add: scoredProducts_def score_calculateSimilarity predictionWords_Nil totalScore_Nil)

lemma sortedProducts_Nil: "sortedProducts [] allProducts limit = []"
  by (simp add: sortedProducts_def scoredProducts_Nil sortByScore_def sliceTo_def)

lemma sliceTo_nonneg: "0 \<le> limit \<Longrightarrow> sliceTo limit xs = take (nat limit) xs"
  by (simp add: sliceTo_def Let_def min_def)

lemma length_sliceTo: "0 \<le> limit \<Longrightarrow> int (length (sliceTo limit xs)) \<le> limit"
  by (simp add: sliceTo_nonneg)

lemma set_sliceTo: "set (sliceTo limit xs) \<subseteq> set xs"
  by (simp add: sliceTo_def Let_def set_take_subset)

lemma set_sortedProducts:
  "set (sortedProducts predictions allProducts limit)
   \<subseteq> {p \<in> set allProducts. 100 \<le> score (calculateSimilarity predictions p)}"
proof
  fix p
  assume "p \<in> set (sortedProducts predictions allProducts limit)"
  then obtain item where item: "item \<in> set (sliceTo limit (sortByScore
        (filter (\<lambda>item. score item > 0) (sortByScore (scoredProducts predictions allProducts)))))"
    and p: "p = product item"
    by (auto simp add: sortedProducts_def)
  from item set_sliceTo have "item \<in> set (scoredProducts predictions allProducts)"
    by (fastforce simp add: sortByScore_def)
  then obtain q where "q \<in> set allProducts" "item = calculateSimilarity predictions q"
    "100 \<le> score item"
    by (auto simp add: scoredProducts_def)
  with p show "p \<in> {p \<in> set allProducts. 100 \<le> score (calculateSimilarity predictions p)}"
    by (simp add: product_calculateSimilarity)
qed

text \<open>
  Claim C1, as stated, fails for a negative limit: \<^verbatim>\<open>slice(0, -1)\<close> drops the last item, so
  with no prediction and a catalog of two items the limit \<open>-1\<close> returns the first item,
  not the first \<open>min(-1, 2)\<close> items.
\<close>

theorem fallback_negative_limit:
  "findMatchingProducts [] [travelMug, teaKettle] (- 1)
   \<noteq> take (nat (min (- 1) (int (length [travelMug, teaKettle])))) [travelMug, teaKettle]"
  by code_simp

text \<open>
  Claim C1, amended. For every catalog and every limit that is not negative,
  \<open>findMatchingProducts\<close> with an empty prediction list returns the first
  \<open>min(limit, |catalog|)\<close> items of the catalog in their order.
\<close>

theorem fallback_first_items:
  "0 \<le> limit \<Longrightarrow>
   findMatchingProducts [] allProducts limit
   = take (nat (min limit (int (length allProducts)))) allProducts"
  by (simp add: findMatchingProducts_def sortedProducts_Nil sliceTo_nonneg min_def)

theorem fallback_first_items_witness:
  "(0::int) \<le> 2
   \<and> findMatchingProducts [] [travelMug, teaKettle, coffeepot] 2
     = take (nat (min 2 (int (length [travelMug, teaKettle, coffeepot]))))
         [travelMug, teaKettle, coffeepot]"
  using fallback_first_items [of 2 "[travelMug, teaKettle, coffeepot]"] by simp

text \<open>
  Claim C2. When the ranked list is not empty (the fallback is not taken), every item that
  \<open>findMatchingProducts\<close> returns has a similarity score of at least 100, and an item whose
  score is below 100 is not in the output.
\<close>

theorem threshold_on_ranked_path:
  assumes "sortedProducts predictions allProducts limit \<noteq> []"
  shows "(\<forall>p \<in> set (findMatchingProducts predictions allProducts limit).
            100 \<le> score (calculateSimilarity predictions p))
         \<and> (\<forall>p. score (calculateSimilarity predictions p) < 100 \<longrightarrow>
               p \<notin> set (findMatchingProducts predictions allProducts limit))"
proof -
  from assms have "findMatchingProducts predictions allProducts limit
      = sortedProducts predictions allProducts limit"
    by (simp add: findMatchingProducts_def)
  with set_sortedProducts [of predictions allProducts limit] show ?thesis
    by fastforce
qed

text \<open>
  The item \<open>coffeepot\<close> has two partial hits of 45 each against the prediction
  \<open>coffee mug\<close>; its score 90 keeps it out of the result.
\<close>

theorem threshold_on_ranked_path_witness:
  "sortedProducts [mugPrediction] [travelMug, teaKettle, coffeepot] 50 \<noteq> []
   \<and> travelMug \<in> set (findMatchingProducts [mugPrediction] [travelMug, teaKettle, coffeepot] 50)
   \<and> 100 \<le> score (calculateSimilarity [mugPrediction] travelMug)
   \<and> score (calculateSimilarity [mugPrediction] coffeepot) < 100
   \<and> coffeepot \<notin> set (findMatchingProducts [mugPrediction] [travelMug, teaKettle, coffeepot] 50)"
proof -
  have ranked: "sortedProducts [mugPrediction] [travelMug, teaKettle, coffeepot] 50 \<noteq> []"
    by code_simp
  have strong:
    "travelMug \<in> set (findMatchingProducts [mugPrediction] [travelMug, teaKettle, coffeepot] 50)"
    by code_simp
  have weak: "score (calculateSimilarity [mugPrediction] coffeepot) < 100"
    by code_simp
  from threshold_on_ranked_path [OF ranked] strong weak ranked show ?thesis
    by blast
qed

text \<open>
  Claim C9, as stated, fails for a negative limit, also on the ranked path: two items
  that score above 100 and the limit \<open>-1\<close> give a result of one item.
\<close>

theorem limit_negative_exceeded:
  "\<not> int (length (findMatchingProducts [mugPrediction] [travelMug, travelMug, teaKettle] (- 1)))
      \<le> - 1"
  by code_simp

text \<open>
  Claim C9, amended. For every prediction list, every catalog and every limit that is not
  negative, \<open>findMatchingProducts\<close> returns at most \<open>limit\<close> items, on the ranked path and on
  the fallback path.
\<close>

theorem limit_respected:
  "0 \<le> limit \<Longrightarrow> int (length (findMatchingProducts predictions allProducts limit)) \<le> limit"
proof -
  assume "0 \<le> limit"
  then have "int (length (sortedProducts predictions allProducts limit)) \<le> limit"
    by (simp add: sortedProducts_def length_sliceTo)
  with \<open>0 \<le> limit\<close> show ?thesis
    by (simp add: findMatchingProducts_def length_sliceTo)
qed

theorem limit_respected_witness:
  "(0::int) \<le> 1
   \<and> int (length (findMatchingProducts [mugPrediction] [travelMug, travelMug, teaKettle] 1)) \<le> 1"
  using limit_respected [of 1 "[mugPrediction]" "[travelMug, travelMug, teaKettle]"] by simp

section \<open>The category filter\<close>

text \<open>
  Claim C8, as stated, fails for the empty category: the guard \<^verbatim>\<open>!category\<close> returns the
  input unchanged, so an item of the category \<open>kitchen\<close> is returned for the empty
  category.
\<close>

theorem filterByCategory_empty_category:
  "filterByCategory [travelMug] [] = [travelMug] \<and> category travelMug \<noteq> []"
  by (simp add: filterByCategory_def travelMug_def)

text \<open>
  Claim C8, amended. For a category that is neither empty nor \<open>all\<close>, \<open>filterByCategory\<close>
  returns exactly the products, in order, whose category equals it (case-sensitive); for
  the sentinel \<open>all\<close> and for the empty category it returns the input unchanged.
\<close>

theorem filterByCategory_exact:
  "(cat \<noteq> [] \<and> cat \<noteq> ''all'' \<longrightarrow>
      filterByCategory products cat = filter (\<lambda>p. category p = cat) products)
   \<and> filterByCategory products ''all'' = products
   \<and> filterByCategory products [] = products"
  by (simp add: filterByCategory_def)

theorem filterByCategory_exact_witness:
  "''kitchen'' \<noteq> [] \<and> ''kitchen'' \<noteq> ''all''
   \<and> filterByCategory [travelMug, teaKettle] ''kitchen''
     = filter (\<lambda>p. category p = ''kitchen'') [travelMug, teaKettle]
   \<and> filterByCategory [travelMug, teaKettle] ''all'' = [travelMug, teaKettle]"
  using filterByCategory_exact [of "''kitchen''" "[travelMug, teaKettle]"] by simp

section \<open>Rank sensitivity and monotonicity\<close>

lemma rankWeight_pos: "0 < rankWeight r"
  by (induction r rule: rankWeight.induct) simp_all

lemma rankWeight_strict: "r1 < r2 \<Longrightarrow> r1 < 3 \<Longrightarrow> rankWeight r2 < rankWeight r1"
  by (induction r1 rule: rankWeight.induct; induction r2 rule: rankWeight.induct) simp_all

lemma rankMultiplier_strict: "r1 < r2 \<Longrightarrow> r1 < 3 \<Longrightarrow> rankMultiplier r2 < rankMultiplier r1"
  by (simp add: rankMultiplier_rankWeight rankWeight_strict)

text \<open>
  Claim C4, as stated, fails in two ways. Every rank from 3 on has the multiplier 2: the
  prediction \<open>mug\<close> of confidence 0.1 gives the item \<open>travelMug\<close> the same score at rank 4
  as at rank 3. And a confidence of 0 contributes 0 at every rank.
\<close>

theorem rank_tie_from_third:
  "\<not> score (calculateSimilarity
        [zebraPrediction, zebraPrediction, zebraPrediction, zebraPrediction, lowMugPrediction]
        travelMug)
     < score (calculateSimilarity
        [zebraPrediction, zebraPrediction, zebraPrediction, lowMugPrediction, zebraPrediction]
        travelMug)
   \<and> \<not> fst (tagStep ''mug'' ''mug'' \<lparr>word = ''mug'', wordProbability = 0, rank = 1\<rparr> (0, []))
       < fst (tagStep ''mug'' ''mug'' \<lparr>word = ''mug'', wordProbability = 0, rank = 0\<rparr> (0, []))"
proof -
  have "score (calculateSimilarity
        [zebraPrediction, zebraPrediction, zebraPrediction, zebraPrediction, lowMugPrediction]
        travelMug) = 140"
    by code_simp
  moreover have "score (calculateSimilarity
        [zebraPrediction, zebraPrediction, zebraPrediction, lowMugPrediction, zebraPrediction]
        travelMug) = 140"
    by code_simp
  ultimately show ?thesis
    by (simp add: tagStep_def)
qed

text \<open>
  Claim C4, amended. The contribution of a match is what the loop body adds to the
  score; it is read off as the score after one step from the score 0, an addition that
  the code's double arithmetic performs without rounding. For two predictions of the
  same confidence, positive and at most 1, at the ranks \<open>r1 < r2\<close> with \<open>r1\<close> at most 2,
  the one at \<open>r1\<close> contributes strictly more than the one at \<open>r2\<close> for the same match: an
  exact or partial match with a token of a tag or of the name, or a containment match
  with the category. Nothing is stated about two accumulated scores, where a sum of
  doubles can absorb a small contribution.
\<close>

theorem rank_sensitivity:
  assumes "0 < prob" and "prob \<le> 1" and "r1 < r2" and "r1 < 3"
  shows "(fieldWord = w \<or> ((stringIncludes fieldWord w \<or> stringIncludes w fieldWord)
                           \<and> length fieldWord > 3 \<and> length w > 3) \<longrightarrow>
            fst (tagStep tag fieldWord \<lparr>word = w, wordProbability = prob, rank = r2\<rparr> (0, matched))
            < fst (tagStep tag fieldWord \<lparr>word = w, wordProbability = prob, rank = r1\<rparr> (0, matched))
            \<and> fst (nameStep fieldWord \<lparr>word = w, wordProbability = prob, rank = r2\<rparr> (0, matched))
              < fst (nameStep fieldWord \<lparr>word = w, wordProbability = prob, rank = r1\<rparr> (0, matched)))
         \<and> (stringIncludes (toLowerCase cat) w \<or> stringIncludes w (toLowerCase cat) \<longrightarrow>
              categoryStep cat \<lparr>word = w, wordProbability = prob, rank = r2\<rparr> 0
              < categoryStep cat \<lparr>word = w, wordProbability = prob, rank = r1\<rparr> 0)"
proof -
  from assms have less: "prob * rankMultiplier r2 < prob * rankMultiplier r1"
    by (simp add: rankMultiplier_strict)
  then show ?thesis
    by (auto simp add: tagStep_def nameStep_def categoryStep_def)
qed

theorem rank_sensitivity_witness:
  "(0::real) < 0.9 \<and> (0.9::real) \<le> 1 \<and> (0::nat) < 1 \<and> (0::nat) < 3
   \<and> fst (tagStep ''mug'' ''mug'' \<lparr>word = ''mug'', wordProbability = 0.9, rank = 1\<rparr> (0, []))
     < fst (tagStep ''mug'' ''mug'' \<lparr>word = ''mug'', wordProbability = 0.9, rank = 0\<rparr> (0, []))
   \<and> fst (nameStep ''mug'' \<lparr>word = ''mug'', wordProbability = 0.9, rank = 1\<rparr> (0, []))
     < fst (nameStep ''mug'' \<lparr>word = ''mug'', wordProbability = 0.9, rank = 0\<rparr> (0, []))
   \<and> stringIncludes (toLowerCase ''Mugs'') ''mug''
   \<and> categoryStep ''Mugs'' \<lparr>word = ''mug'', wordProbability = 0.9, rank = 1\<rparr> 0
     < categoryStep ''Mugs'' \<lparr>word = ''mug'', wordProbability = 0.9, rank = 0\<rparr> 0"
proof -
  have contained: "stringIncludes (toLowerCase ''Mugs'') ''mug''"
    by code_simp
  have "(0::real) < 0.9" and "(0.9::real) \<le> 1" and "(0::nat) < 1" and "(0::nat) < 3"
    by simp_all
  from rank_sensitivity [OF this, where fieldWord = "''mug''" and w = "''mug''"
      and tag = "''mug''" and matched = "[]" and cat = "''Mugs''"] contained
  show ?thesis
    by simp
qed

lemma enumerate_snoc: "enumerate n (xs @ [x]) = enumerate n xs @ [(n + length xs, x)]"
  by (simp add: enumerate_append_eq)

lemma predictionWords_snoc:
  "predictionWords (predictions @ [pred])
   = predictionWords predictions @ indexEntries (length predictions) pred"
  by (simp add: predictionWords_buildIndex buildIndex_def enumerate_snoc)

lemma tagsScore_append: "tagsScore (A @ B) p = tagsScore A p + tagsScore B p"
  by (simp add: tagsScore_def sum_list_addf)

lemma nameScore_append: "nameScore (A @ B) p = nameScore A p + nameScore B p"
  by (simp add: nameScore_def sum_list_addf)

lemma categoryScore_append: "categoryScore (A @ B) p = categoryScore A p + categoryScore B p"
  by (simp add: categoryScore_def)

lemma totalScore_append: "totalScore (A @ B) p = totalScore A p + totalScore B p"
  by (simp add: totalScore_def tagsScore_append nameScore_append categoryScore_append)

lemma fieldContribution_nonneg:
  "0 \<le> baseExact \<Longrightarrow> 0 \<le> basePartial \<Longrightarrow> 0 \<le> wordProbability pw \<Longrightarrow>
   0 \<le> fieldContribution baseExact basePartial fieldToken pw"
  using rankWeight_pos [of "rank pw"] by (simp add: fieldContribution_def)

lemma categoryContribution_nonneg: "0 \<le> wordProbability pw \<Longrightarrow> 0 \<le> categoryContribution cat pw"
  using rankWeight_pos [of "rank pw"] by (simp add: categoryContribution_def)

lemma sum_list_map_ge_member:
  fixes f :: "'a \<Rightarrow> real"
  assumes "x \<in> set xs" and "\<And>y. y \<in> set xs \<Longrightarrow> 0 \<le> f y"
  shows "f x \<le> (\<Sum>y\<leftarrow>xs. f y)"
  using assms member_le_sum_list [of "f x" "map f xs"] by auto

lemma sum_list_map_nonneg:
  fixes f :: "'a \<Rightarrow> real"
  assumes "\<And>y. y \<in> set xs \<Longrightarrow> 0 \<le> f y"
  shows "0 \<le> (\<Sum>y\<leftarrow>xs. f y)"
  using assms by (induction xs) simp_all

lemma nameScore_nonneg:
  assumes "\<And>pw. pw \<in> set pws \<Longrightarrow> 0 \<le> wordProbability pw"
  shows "0 \<le> nameScore pws p"
  unfolding nameScore_def
  by (intro sum_list_map_nonneg fieldContribution_nonneg assms) simp_all

lemma categoryScore_nonneg:
  assumes "\<And>pw. pw \<in> set pws \<Longrightarrow> 0 \<le> wordProbability pw"
  shows "0 \<le> categoryScore pws p"
  unfolding categoryScore_def
  by (intro sum_list_map_nonneg categoryContribution_nonneg assms)

lemma tagsScore_ge_pair:
  assumes nonneg: "\<And>pw. pw \<in> set pws \<Longrightarrow> 0 \<le> wordProbability pw"
    and "tag \<in> set (tags p)" and "tagWord \<in> set (tokenizeClassName tag)" and "pw \<in> set pws"
  shows "fieldContribution 100 10 tagWord pw \<le> tagsScore pws p"
proof -
  have inner: "0 \<le> (\<Sum>pw\<leftarrow>pws. fieldContribution 100 10 tw pw)" for tw
    by (intro sum_list_map_nonneg fieldContribution_nonneg nonneg) simp_all
  have middle: "0 \<le> (\<Sum>tw\<leftarrow>tws. \<Sum>pw\<leftarrow>pws. fieldContribution 100 10 tw pw)" for tws
    by (intro sum_list_map_nonneg inner)
  have "fieldContribution 100 10 tagWord pw \<le> (\<Sum>pw\<leftarrow>pws. fieldContribution 100 10 tagWord pw)"
    using \<open>pw \<in> set pws\<close> by (intro sum_list_map_ge_member fieldContribution_nonneg nonneg) simp_all
  also have "\<dots> \<le> (\<Sum>tw\<leftarrow>tokenizeClassName tag. \<Sum>pw\<leftarrow>pws. fieldContribution 100 10 tw pw)"
    using \<open>tagWord \<in> set (tokenizeClassName tag)\<close>
    by (rule sum_list_map_ge_member [where f = "\<lambda>tw. \<Sum>pw\<leftarrow>pws. fieldContribution 100 10 tw pw"])
      (rule inner)
  also have "\<dots> \<le> tagsScore pws p"
    unfolding tagsScore_def using \<open>tag \<in> set (tags p)\<close>
    by (rule sum_list_map_ge_member
        [where f = "\<lambda>tag. \<Sum>tw\<leftarrow>tokenizeClassName tag. \<Sum>pw\<leftarrow>pws. fieldContribution 100 10 tw pw"])
      (rule middle)
  finally show ?thesis .
qed

text \<open>
  Claim C5, as stated, fails in three ways. A token of 2 characters is not indexed: the
  label \<open>tv\<close> matches the tag \<open>tv\<close> of \<open>smartTv\<close> and adds nothing. A confidence of 0 adds
  nothing. And a prediction added in front moves the others one rank down: \<open>mug\<close> of
  confidence 0.1 in front of \<open>coffee mug\<close> lowers the score of \<open>travelMug\<close> from 2565 to
  2402.
\<close>

theorem added_match_without_increase:
  "\<not> score (calculateSimilarity [mugPrediction] smartTv)
       < score (calculateSimilarity ([mugPrediction] @ [tvPrediction]) smartTv)
   \<and> \<not> score (calculateSimilarity [mugPrediction] travelMug)
       < score (calculateSimilarity ([mugPrediction] @ [zeroMugPrediction]) travelMug)
   \<and> \<not> score (calculateSimilarity [mugPrediction] travelMug)
       < score (calculateSimilarity (lowMugPrediction # [mugPrediction]) travelMug)"
proof -
  have "score (calculateSimilarity [mugPrediction] smartTv) = 0"
    and "score (calculateSimilarity ([mugPrediction] @ [tvPrediction]) smartTv) = 0"
    by code_simp+
  moreover have "score (calculateSimilarity [mugPrediction] travelMug) = 2565"
    and "score (calculateSimilarity ([mugPrediction] @ [zeroMugPrediction]) travelMug) = 2565"
    and "score (calculateSimilarity (lowMugPrediction # [mugPrediction]) travelMug) = 2402"
    by code_simp+
  ultimately show ?thesis
    by simp
qed

text \<open>
  Claim C5, amended. Take an item, a prediction list, and a prediction of positive
  confidence whose tokenized label has a token longer than 2 characters that equals a
  token of one of the item's tags. Appending the prediction puts that token into the
  index at the new last rank; its exact-match contribution, the score after the step
  from the score 0, is strictly positive; the contributions of the appended prediction
  to the item sum to a strictly positive amount; and the computed score of the item
  does not decrease. A strict increase of the accumulated score is not stated: in the
  code the score is a sum of doubles, which can absorb a small positive contribution.
\<close>

theorem appended_exact_match_contributes:
  assumes "0 < probability pred"
    and "tag \<in> set (tags p)"
    and "token \<in> set (tokenizeClassName tag)"
    and "token \<in> set (tokenizeClassName (className pred))"
    and "2 < length token"
  shows "\<lparr>word = token, wordProbability = probability pred, rank = length predictions\<rparr>
           \<in> set (predictionWords (predictions @ [pred]))
         \<and> 0 < fst (tagStep tag token
                  \<lparr>word = token, wordProbability = probability pred, rank = length predictions\<rparr>
                  (0, matched))
         \<and> 0 < totalScore (indexEntries (length predictions) pred) p
         \<and> score (calculateSimilarity predictions p)
             \<le> score (calculateSimilarity (predictions @ [pred]) p)"
proof -
  let ?new = "indexEntries (length predictions) pred"
  let ?pw = "\<lparr>word = token, wordProbability = probability pred, rank = length predictions\<rparr>"
  have probs: "0 \<le> wordProbability pw" if "pw \<in> set ?new" for pw
    using that assms(1) by (auto simp add: indexEntries_def)
  have indexed: "?pw \<in> set ?new"
    using assms(4,5) by (simp add: indexEntries_def)
  then have "fieldContribution 100 10 token ?pw \<le> tagsScore ?new p"
    using probs assms(2,3) by (intro tagsScore_ge_pair) simp_all
  moreover have exact: "0 < fieldContribution 100 10 token ?pw"
    using assms(1) rankWeight_pos [of "length predictions"] by (simp add: fieldContribution_def)
  moreover have "0 \<le> nameScore ?new p" and "0 \<le> categoryScore ?new p"
    using probs by (simp_all add: nameScore_nonneg categoryScore_nonneg)
  ultimately have total: "0 < totalScore ?new p"
    by (simp add: totalScore_def)
  have "?pw \<in> set (predictionWords (predictions @ [pred]))"
    using indexed by (simp add: predictionWords_snoc)
  moreover have "0 < fst (tagStep tag token ?pw (0, matched))"
    using exact by (simp add: fst_tagStep)
  moreover have "score (calculateSimilarity predictions p)
      \<le> score (calculateSimilarity (predictions @ [pred]) p)"
    using total by (simp add: score_calculateSimilarity predictionWords_snoc totalScore_append)
  ultimately show ?thesis
    using total by blast
qed

theorem appended_exact_match_contributes_witness:
  "0 < probability lowMugPrediction
   \<and> ''mug'' \<in> set (tags travelMug)
   \<and> ''mug'' \<in> set (tokenizeClassName ''mug'')
   \<and> ''mug'' \<in> set (tokenizeClassName (className lowMugPrediction))
   \<and> 2 < length ''mug''
   \<and> \<lparr>word = ''mug'', wordProbability = probability lowMugPrediction,
        rank = length [mugPrediction]\<rparr>
       \<in> set (predictionWords ([mugPrediction] @ [lowMugPrediction]))
   \<and> 0 < fst (tagStep ''mug'' ''mug''
              \<lparr>word = ''mug'', wordProbability = probability lowMugPrediction,
                 rank = length [mugPrediction]\<rparr> (0, []))
   \<and> 0 < totalScore (indexEntries (length [mugPrediction]) lowMugPrediction) travelMug
   \<and> score (calculateSimilarity [mugPrediction] travelMug)
       \<le> score (calculateSimilarity ([mugPrediction] @ [lowMugPrediction]) travelMug)"
proof -
  have h1: "0 < probability lowMugPrediction"
    by (simp add: lowMugPrediction_def)
  have h2: "''mug'' \<in> set (tags travelMug)"
    by (simp add: travelMug_def)
  have h3: "''mug'' \<in> set (tokenizeClassName ''mug'')"
    by code_simp
  have h4: "''mug'' \<in> set (tokenizeClassName (className lowMugPrediction))"
    by code_simp
  have h5: "2 < length ''mug''"
    by simp
  from appended_exact_match_contributes [OF h1 h2 h3 h4 h5, of "[mugPrediction]" "[]"]
    h1 h2 h3 h4 h5
  show ?thesis
    by blast
qed

section \<open>The tokenizer on a single word\<close>

lemma isWhiteSpace_code: "isWhiteSpace c \<longleftrightarrow> (of_char c :: nat) \<in> {9, 10, 11, 12, 13, 32, 160}"
proof -
  have "c = d \<longleftrightarrow> (of_char c :: nat) = of_char d" for d
    by simp
  then show ?thesis
    unfolding isWhiteSpace_def by (simp del: of_char_eq_iff)
qed

lemma isSeparator_code:
  "isSeparator c \<longleftrightarrow> (of_char c :: nat) \<in> {9, 10, 11, 12, 13, 32, 160, 44}"
proof -
  have "c = CHR '','' \<longleftrightarrow> (of_char c :: nat) = of_char CHR '',''"
    by (simp only: of_char_eq_iff)
  then show ?thesis
    unfolding isSeparator_def isWhiteSpace_code by (auto simp del: of_char_eq_iff)
qed

lemma toLowerChar_whitespace: "isWhiteSpace c \<Longrightarrow> toLowerChar c = c"
  by (auto simp add: isWhiteSpace_code toLowerChar_def isUpperCase_def)

lemma isSeparator_toLowerChar: "isSeparator (toLowerChar c) = isSeparator c"
proof (cases "isUpperCase c")
  case False
  then show ?thesis by (simp add: toLowerChar_def)
next
  case True
  then have "(of_char (toLowerChar c) :: nat) = of_char c + 32"
    by (auto simp add: toLowerChar_def isUpperCase_def Let_def)
  with True show ?thesis
    by (auto simp add: isSeparator_code isUpperCase_def Let_def)
qed

lemma toLowerCase_whitespace: "\<forall>c\<in>set a. isWhiteSpace c \<Longrightarrow> toLowerCase a = a"
  by (induction a) (simp_all add: toLowerCase_def toLowerChar_whitespace)

lemma toLowerCase_append: "toLowerCase (a @ b) = toLowerCase a @ toLowerCase b"
  by (simp add: toLowerCase_def)

lemma toLowerCase_no_separator:
  "\<forall>c\<in>set t. \<not> isSeparator c \<Longrightarrow> \<forall>c\<in>set (toLowerCase t). \<not> isSeparator c"
  by (simp add: toLowerCase_def isSeparator_toLowerChar)

lemma trim_decomposition:
  "\<exists>a b. s = a @ trim s @ b \<and> (\<forall>c\<in>set a. isWhiteSpace c) \<and> (\<forall>c\<in>set b. isWhiteSpace c)"
proof -
  let ?u = "dropWhile isWhiteSpace s"
  let ?a = "takeWhile isWhiteSpace s"
  let ?b = "rev (takeWhile isWhiteSpace (rev ?u))"
  have "rev (takeWhile isWhiteSpace (rev ?u) @ dropWhile isWhiteSpace (rev ?u)) = trim s @ ?b"
    by (simp only: rev_append trim_def)
  moreover have "rev (takeWhile isWhiteSpace (rev ?u) @ dropWhile isWhiteSpace (rev ?u)) = ?u"
    by simp
  ultimately have "?u = trim s @ ?b"
    by simp
  then have "s = ?a @ trim s @ ?b"
    using takeWhile_dropWhile_id [of isWhiteSpace s] by simp
  moreover have "\<forall>c\<in>set ?a. isWhiteSpace c"
    by (auto dest: set_takeWhileD)
  moreover have "\<forall>c\<in>set ?b. isWhiteSpace c"
    by (auto dest: set_takeWhileD)
  ultimately show ?thesis
    by blast
qed

lemma trim_no_whitespace: "\<forall>c\<in>set t. \<not> isWhiteSpace c \<Longrightarrow> trim t = t"
proof -
  assume clean: "\<forall>c\<in>set t. \<not> isWhiteSpace c"
  then have "dropWhile isWhiteSpace t = t"
    by (cases t) simp_all
  moreover from clean have "dropWhile isWhiteSpace (rev t) = rev t"
    by (cases "rev t") (simp, metis dropWhile.simps(2) list.set_intros(1) set_rev)
  ultimately show ?thesis
    by (simp add: trim_def)
qed

lemma trim_Nil: "trim [] = []"
  by (simp add: trim_def)

lemma splitOnSeparators_Nil: "splitOnSeparators [] = [[]]"
  by (simp add: splitOnSeparators.simps)

lemma dropWhile_all: "\<forall>x\<in>set xs. P x \<Longrightarrow> dropWhile P xs = []"
  by (simp add: dropWhile_eq_Nil_conv)

lemma splitOnSeparators_word:
  assumes "\<forall>c\<in>set t. \<not> isSeparator c" and "\<forall>c\<in>set b. isSeparator c"
  shows "splitOnSeparators (t @ b) = t # (if b = [] then [] else [[]])"
proof -
  have "takeWhile (\<lambda>c. \<not> isSeparator c) b = []"
    using assms(2) by (cases b) simp_all
  with assms(1) have taken: "takeWhile (\<lambda>c. \<not> isSeparator c) (t @ b) = t"
    by (simp add: takeWhile_append2)
  have "dropWhile (\<lambda>c. \<not> isSeparator c) b = b"
    using assms(2) by (cases b) simp_all
  with assms(1) have dropped: "dropWhile (\<lambda>c. \<not> isSeparator c) (t @ b) = b"
    by (simp add: dropWhile_append2)
  have "splitOnSeparators (t @ b)
      = t # (case b of [] \<Rightarrow> [] | c # rest \<Rightarrow> splitOnSeparators (dropWhile isSeparator rest))"
    by (subst splitOnSeparators.simps) (simp only: taken dropped)
  also have "(case b of [] \<Rightarrow> [] | c # rest \<Rightarrow> splitOnSeparators (dropWhile isSeparator rest))
      = (if b = [] then [] else [[]])"
    using assms(2) by (cases b) (simp_all add: splitOnSeparators_Nil dropWhile_all)
  finally show ?thesis .
qed

lemma splitOnSeparators_leading:
  assumes "a \<noteq> []" and "\<forall>c\<in>set a. isSeparator c" and "t \<noteq> []" and "\<forall>c\<in>set t. \<not> isSeparator c"
  shows "splitOnSeparators (a @ t @ b) = [] # splitOnSeparators (t @ b)"
proof -
  from assms(1) obtain c rest where a: "a = c # rest"
    by (cases a) auto
  with assms(2) have "isSeparator c" and rest: "\<forall>c\<in>set rest. isSeparator c"
    by simp_all
  from assms(3,4) have "dropWhile isSeparator (t @ b) = t @ b"
    by (cases t) simp_all
  with rest have "dropWhile isSeparator (rest @ t @ b) = t @ b"
    by (simp add: dropWhile_append2)
  with a \<open>isSeparator c\<close> show ?thesis
    by (subst splitOnSeparators.simps) simp
qed

lemma parts_single_word:
  assumes "\<forall>c\<in>set a. isSeparator c" and "\<forall>c\<in>set b. isSeparator c"
    and "t \<noteq> []" and "\<forall>c\<in>set t. \<not> isSeparator c"
  shows "filter (\<lambda>s. s \<noteq> []) (map trim (splitOnSeparators (a @ t @ b))) = [t]"
proof -
  from assms(4) have "\<forall>c\<in>set t. \<not> isWhiteSpace c"
    by (simp add: isSeparator_def)
  then have "trim t = t"
    by (rule trim_no_whitespace)
  with assms(2,3,4) have word: "filter (\<lambda>s. s \<noteq> []) (map trim (splitOnSeparators (t @ b))) = [t]"
    by (simp add: splitOnSeparators_word trim_Nil)
  show ?thesis
  proof (cases "a = []")
    case True
    with word show ?thesis by simp
  next
    case False
    with assms word show ?thesis
      by (simp add: splitOnSeparators_leading trim_Nil)
  qed
qed

lemma tokenizeClassName_single_word:
  assumes "trim s \<noteq> []" and "\<forall>c\<in>set (trim s). \<not> isSeparator c"
  shows "tokenizeClassName s = [toLowerCase (trim s), toLowerCase (trim s)]"
proof -
  obtain a b where s: "s = a @ trim s @ b"
    and a: "\<forall>c\<in>set a. isWhiteSpace c" and b: "\<forall>c\<in>set b. isWhiteSpace c"
    using trim_decomposition by blast
  let ?t = "toLowerCase (trim s)"
  have "toLowerCase s = toLowerCase (a @ trim s @ b)"
    using s by simp
  also have "\<dots> = a @ ?t @ b"
    using a b by (simp add: toLowerCase_append toLowerCase_whitespace)
  finally have lower: "toLowerCase s = a @ ?t @ b" .
  have "?t \<noteq> []"
    using assms(1) by (simp add: toLowerCase_def)
  moreover have "\<forall>c\<in>set ?t. \<not> isSeparator c"
    using assms(2) by (rule toLowerCase_no_separator)
  moreover have "\<forall>c\<in>set a. isSeparator c" and "\<forall>c\<in>set b. isSeparator c"
    using a b by (simp_all add: isSeparator_def)
  ultimately have "filter (\<lambda>s. s \<noteq> []) (map trim (splitOnSeparators (a @ ?t @ b))) = [?t]"
    by (intro parts_single_word)
  with lower show ?thesis
    by (simp add: tokenizeClassName_def Let_def)
qed

lemma scoreTag_insert:
  "fst (scoreTag (pws1 @ pw # pws2) tag st)
   = fst (scoreTag (pws1 @ pws2) tag st)
     + (\<Sum>tagWord\<leftarrow>tokenizeClassName tag. fieldContribution 100 10 tagWord pw)"
  by (simp add: fst_scoreTag sum_list_addf algebra_simps)

text \<open>
  Claim C10, as stated, fails for a string that is empty after trimming: it has no
  separator, and \<open>tokenizeClassName\<close> returns the empty word once, since the empty split
  part is filtered out.
\<close>

theorem tokenize_empty_once:
  "tokenizeClassName [] = [[]]
   \<and> tokenizeClassName [] \<noteq> [toLowerCase (trim []), toLowerCase (trim [])]"
  by code_simp

text \<open>
  Claim C10, amended. For every string that, after trimming, is not empty and has no
  whitespace and no comma, \<open>tokenizeClassName\<close> returns the lower-cased trimmed word twice;
  so for such a tag, a prediction word equal to it adds its exact contribution
  \<open>100 * confidence * rank multiplier\<close> twice to the score.
\<close>

theorem single_word_tag_counts_twice:
  assumes "trim s \<noteq> []" and "\<forall>c\<in>set (trim s). \<not> isSeparator c"
  shows "tokenizeClassName s = [toLowerCase (trim s), toLowerCase (trim s)]
         \<and> (word pw = toLowerCase (trim s) \<longrightarrow>
              fst (scoreTag (pws1 @ [pw] @ pws2) s st)
              = fst (scoreTag (pws1 @ pws2) s st)
                + 2 * (100 * wordProbability pw * rankMultiplier (rank pw)))"
  using assms
  by (simp add: tokenizeClassName_single_word scoreTag_insert fieldContribution_def
      rankMultiplier_rankWeight)

theorem single_word_tag_counts_twice_witness:
  "trim ''  Mug '' \<noteq> []
   \<and> tokenizeClassName ''  Mug '' = [''mug'', ''mug'']
   \<and> fst (scoreTag ([] @ [\<lparr>word = ''mug'', wordProbability = 0.9, rank = 0\<rparr>] @ [])
            ''  Mug '' (0, []))
     = fst (scoreTag ([] @ []) ''  Mug '' (0, [])) + 2 * (100 * 0.9 * rankMultiplier 0)"
proof -
  have h1: "trim ''  Mug '' \<noteq> []"
    by code_simp
  have h2: "\<forall>c\<in>set (trim ''  Mug ''). \<not> isSeparator c"
    by code_simp
  have lower: "toLowerCase (trim ''  Mug '') = ''mug''"
    by code_simp
  from single_word_tag_counts_twice [OF h1 h2,
      where pw = "\<lparr>word = ''mug'', wordProbability = 0.9, rank = 0\<rparr>"
        and ?pws1.0 = "[]" and ?pws2.0 = "[]" and st = "(0, [])"] h1 lower
  show ?thesis
    by simp
qed

end
